theory Spec2Isabelle
  imports Complex_Main
begin

section \<open>Monte Carlo pricing of a European call under Black-Scholes-Merton\<close>

text \<open>
  The notebook \<^verbatim>\<open>finance/python-black-scholes-merton.ipynb\<close> (Python 2 with NumPy)
  holds the whole program: a scalar \<^verbatim>\<open>bsm\<close> (second cell), a vectorized \<^verbatim>\<open>bsm\<close>
  that replaces it (fourth cell), and the option-pricing cell that turns the simulated
  prices into payoffs, averages them and discounts the average.

  Numbers. A Python float or a NumPy \<^verbatim>\<open>float64\<close> that holds a number is a \<open>real\<close>
  here, and rounding is outside this development. Leaving the numbers is treated the
  way the code treats it.
  \<^item> Where Python raises, the model returns the exception as a value of \<open>error\<close> on
    the left of a sum: \<^verbatim>\<open>OverflowError\<close> from the float power \<^verbatim>\<open>sigma**2\<close> and from
    \<^verbatim>\<open>math.exp\<close> when the result exceeds the largest float \<open>float_max\<close>,
    \<^verbatim>\<open>ValueError\<close> from \<^verbatim>\<open>math.sqrt\<close> of a negative number, \<^verbatim>\<open>ZeroDivisionError\<close> from
    \<^verbatim>\<open>0/0\<close>.
  \<^item> \<^verbatim>\<open>np.sqrt\<close> of a negative number warns and returns \<^verbatim>\<open>nan\<close>, which is \<open>None\<close> in
    \<open>npfloat\<close>.
  \<^item> Where floating-point arithmetic overflows without an exception (products, sums
    and differences of floats, \<^verbatim>\<open>np.exp\<close>) the code continues with \<^verbatim>\<open>inf\<close>, and \<^verbatim>\<open>nan\<close>
    may follow from it; the model continues with the real number. The predicates
    \<open>bsm_in_range\<close>, \<open>presentOptionValue_in_range\<close> and \<open>at_strike_in_range\<close> say
    that every input and every intermediate result of a computation is within the
    range of a float. Under them the code meets neither \<^verbatim>\<open>inf\<close> nor \<^verbatim>\<open>nan\<close> nor an
    exception; each theorem states where it assumes them.
\<close>

subsection \<open>Errors and values\<close>

text \<open>
  \<open>ZeroDivisionError\<close>, \<open>ValueError\<close> and \<open>OverflowError\<close> are the Python exceptions
  the notebook's arithmetic can raise. \<open>InvalidParameter\<close> and \<open>EmptyInput\<close> are the
  two error kinds of the specification's taxonomy; no statement of the notebook raises
  either.
\<close>

datatype error = InvalidParameter | EmptyInput | ZeroDivisionError | ValueError | OverflowError

text \<open>The largest finite double, about \<^verbatim>\<open>1.7977e308\<close>, and the numbers a float can hold.\<close>

definition float_max :: real where
  "float_max = (2 - 1 / 2 ^ 52) * 2 ^ 1023"

definition in_range :: "real \<Rightarrow> bool" where
  "in_range x \<longleftrightarrow> \<bar>x\<bar> \<le> float_max"

type_synonym npfloat = "real option"

text \<open>Arithmetic on \<open>npfloat\<close>: \<^verbatim>\<open>nan\<close> is contagious.\<close>

fun f_mul :: "npfloat \<Rightarrow> npfloat \<Rightarrow> npfloat" where
  "f_mul (Some x) (Some y) = Some (x * y)"
| "f_mul _ _ = None"

fun f_add :: "npfloat \<Rightarrow> npfloat \<Rightarrow> npfloat" where
  "f_add (Some x) (Some y) = Some (x + y)"
| "f_add _ _ = None"

fun f_exp :: "npfloat \<Rightarrow> npfloat" where
  "f_exp (Some x) = Some (exp x)"
| "f_exp None = None"

subsection \<open>The library functions the notebook calls\<close>

text \<open>
  \<^verbatim>\<open>x**n\<close> on a Python float: a result beyond the largest float raises
  \<^verbatim>\<open>OverflowError: (34, 'Numerical result out of range')\<close>.
\<close>

definition py_pow :: "real \<Rightarrow> nat \<Rightarrow> error + real" where
  "py_pow x n = (if in_range (x ^ n) then Inr (x ^ n) else Inl OverflowError)"

text \<open>\<^verbatim>\<open>math.sqrt(t)\<close>: a negative argument raises \<^verbatim>\<open>ValueError: math domain error\<close>.\<close>

definition math_sqrt :: "real \<Rightarrow> error + real" where
  "math_sqrt t = (if t < 0 then Inl ValueError else Inr (sqrt t))"

text \<open>
  \<^verbatim>\<open>math.exp(x)\<close> on a number: a result beyond the largest float raises
  \<^verbatim>\<open>OverflowError: math range error\<close>.
\<close>

definition math_exp :: "real \<Rightarrow> error + real" where
  "math_exp x = (if in_range (exp x) then Inr (exp x) else Inl OverflowError)"

text \<open>\<^verbatim>\<open>np.sqrt(t)\<close> on a scalar: a negative argument gives \<^verbatim>\<open>nan\<close> and no exception.\<close>

definition np_sqrt :: "real \<Rightarrow> npfloat" where
  "np_sqrt t = (if t < 0 then None else Some (sqrt t))"

text \<open>
  NumPy broadcasting, one definition per shape the notebook uses: a scalar times an
  array, a scalar plus an array, \<^verbatim>\<open>np.exp\<close> of an array, an array minus a scalar and
  \<^verbatim>\<open>np.maximum\<close> of an array and a scalar. None of them raises. The first three may
  meet \<^verbatim>\<open>nan\<close>; the last two are only applied to arrays of numbers here.
\<close>

definition np_mul :: "npfloat \<Rightarrow> npfloat list \<Rightarrow> npfloat list" where
  "np_mul c xs = map (\<lambda>x. f_mul c x) xs"

definition np_add :: "npfloat \<Rightarrow> npfloat list \<Rightarrow> npfloat list" where
  "np_add c xs = map (\<lambda>x. f_add c x) xs"

definition np_exp :: "npfloat list \<Rightarrow> npfloat list" where
  "np_exp xs = map f_exp xs"

definition np_sub :: "real list \<Rightarrow> real \<Rightarrow> real list" where
  "np_sub xs c = map (\<lambda>x. x - c) xs"

definition np_maximum :: "real list \<Rightarrow> real \<Rightarrow> real list" where
  "np_maximum xs c = map (\<lambda>x. max x c) xs"

text \<open>
  Python's builtin \<^verbatim>\<open>sum\<close>: it starts from \<open>0\<close> and adds the elements from left to
  right. \<open>partial_sums 0 xs\<close> lists the values its accumulator takes.
\<close>

definition py_sum :: "real list \<Rightarrow> real" where
  "py_sum xs = foldl (+) 0 xs"

fun partial_sums :: "real \<Rightarrow> real list \<Rightarrow> real list" where
  "partial_sums a [] = []"
| "partial_sums a (x # xs) = (a + x) # partial_sums (a + x) xs"

subsection \<open>The pricing formula, scalar and vectorized\<close>

text \<open>
  Second cell:
  \<^verbatim>\<open>
  def bsm(s_0, r, sigma, t, z):
      return s_0 * math.exp((r - 0.5 * sigma**2) * t + sigma * math.sqrt(t) * z)
  \<close>
  The two cells give their function the same name; the scalar one is \<open>bsm_scalar\<close>
  here and \<open>bsm\<close> is the vectorized one, which is the definition in force from the
  fourth cell on. Python evaluates the operands from left to right: the power first,
  then the square root, then the exponential.
\<close>

definition bsm_scalar :: "real \<Rightarrow> real \<Rightarrow> real \<Rightarrow> real \<Rightarrow> real \<Rightarrow> error + real" where
  "bsm_scalar s_0 r sigma t z =
     (case py_pow sigma 2 of
        Inl e \<Rightarrow> Inl e
      | Inr s2 \<Rightarrow>
          (case math_sqrt t of
             Inl e \<Rightarrow> Inl e
           | Inr q \<Rightarrow>
               (case math_exp ((r - 0.5 * s2) * t + sigma * q * z) of
                  Inl e \<Rightarrow> Inl e
                | Inr x \<Rightarrow> Inr (s_0 * x))))"

text \<open>
  Fourth cell:
  \<^verbatim>\<open>
  def bsm(s_0, r, sigma, t, z):
      return s_0 * np.exp((r - 0.5 * sigma**2) * t + sigma * np.sqrt(t) * z)
  \<close>
  \<open>z\<close> is the array of draws, \<^verbatim>\<open>np.random.standard_normal(n)\<close> at every call site.
  \<^verbatim>\<open>sigma**2\<close> is still the power of a Python float and raises on overflow, before
  NumPy sees \<open>z\<close>; nothing else in the body raises.
\<close>

definition bsm :: "real \<Rightarrow> real \<Rightarrow> real \<Rightarrow> real \<Rightarrow> real list \<Rightarrow> error + npfloat list" where
  "bsm s_0 r sigma t z =
     (case py_pow sigma 2 of
        Inl e \<Rightarrow> Inl e
      | Inr s2 \<Rightarrow>
          Inr (np_mul (Some s_0)
                 (np_exp (np_add (Some ((r - 0.5 * s2) * t))
                                 (np_mul (f_mul (Some sigma) (np_sqrt t)) (map Some z))))))"

subsection \<open>Payoffs, their average and its present value\<close>

text \<open>
  The option-pricing cell:
  \<^verbatim>\<open>
  stockPricesAtExpiry = bsm(100, r, 0.4, t, np.random.standard_normal(n))
  strikePrice = 105
  optionValuesAtExpiry = np.maximum(stockPricesAtExpiry - strikePrice, 0)
  averageForwardOptionValue = sum(optionValuesAtExpiry)/n
  presentOptionValue = averageForwardOptionValue * math.exp(-r * t)
  \<close>
  Each assignment is a function of the names it reads. \<open>n\<close> is the number of draws,
  hence the length of every array of the cell. On an empty array \<^verbatim>\<open>sum\<close> returns the
  integer \<open>0\<close> and \<^verbatim>\<open>0/0\<close> raises \<^verbatim>\<open>ZeroDivisionError\<close>; on a non-empty one the sum is a
  \<^verbatim>\<open>float64\<close> and the division is the real one. The average is assigned before
  \<^verbatim>\<open>math.exp\<close> is called, so on an empty array the division is what fails.
\<close>

definition optionValuesAtExpiry :: "real list \<Rightarrow> real \<Rightarrow> error + real list" where
  "optionValuesAtExpiry stockPricesAtExpiry strikePrice =
     Inr (np_maximum (np_sub stockPricesAtExpiry strikePrice) 0)"

definition averageForwardOptionValue :: "real list \<Rightarrow> error + real" where
  "averageForwardOptionValue optionValues =
     (let n = length optionValues
      in if n = 0 then Inl ZeroDivisionError
         else Inr (py_sum optionValues / real n))"

definition presentOptionValue :: "real list \<Rightarrow> real \<Rightarrow> real \<Rightarrow> error + real" where
  "presentOptionValue optionValues r t =
     (case averageForwardOptionValue optionValues of
        Inl e \<Rightarrow> Inl e
      | Inr a \<Rightarrow>
          (case math_exp (- r * t) of
             Inl e \<Rightarrow> Inl e
           | Inr d \<Rightarrow> Inr (a * d)))"

text \<open>
  The last three assignments of the cell in sequence: from the simulated prices and a
  strike to the present value.
\<close>

definition presentOptionValue_at_strike :: "real list \<Rightarrow> real \<Rightarrow> real \<Rightarrow> real \<Rightarrow> error + real" where
  "presentOptionValue_at_strike stockPricesAtExpiry strikePrice r t =
     (case optionValuesAtExpiry stockPricesAtExpiry strikePrice of
        Inl e \<Rightarrow> Inl e
      | Inr optionValues \<Rightarrow> presentOptionValue optionValues r t)"

subsection \<open>Computations that stay within the range of a float\<close>

text \<open>
  One conjunct for every input and every subexpression of the body of \<^verbatim>\<open>bsm\<close>, in the
  order of evaluation; those under \<open>list_all\<close> for each draw.
\<close>

definition bsm_in_range :: "real \<Rightarrow> real \<Rightarrow> real \<Rightarrow> real \<Rightarrow> real list \<Rightarrow> bool" where
  "bsm_in_range s_0 r sigma t z \<longleftrightarrow>
     in_range s_0 \<and> in_range r \<and> in_range sigma \<and> in_range t \<and>
     in_range (sigma ^ 2) \<and>
     in_range (r - 0.5 * sigma ^ 2) \<and>
     in_range ((r - 0.5 * sigma ^ 2) * t) \<and>
     in_range (sigma * sqrt t) \<and>
     list_all (\<lambda>zi. in_range zi \<and>
                 in_range (sigma * sqrt t * zi) \<and>
                 in_range ((r - 0.5 * sigma ^ 2) * t + sigma * sqrt t * zi) \<and>
                 in_range (exp ((r - 0.5 * sigma ^ 2) * t + sigma * sqrt t * zi)) \<and>
                 in_range (s_0 * exp ((r - 0.5 * sigma ^ 2) * t + sigma * sqrt t * zi))) z"

text \<open>
  The same for the average and its present value: the payoffs, every value of the
  accumulator of \<^verbatim>\<open>sum\<close>, the rate and the time, the product \<^verbatim>\<open>-r * t\<close>, the discount
  factor and the result.
\<close>

definition presentOptionValue_in_range :: "real list \<Rightarrow> real \<Rightarrow> real \<Rightarrow> bool" where
  "presentOptionValue_in_range optionValues r t \<longleftrightarrow>
     list_all in_range optionValues \<and>
     list_all in_range (partial_sums 0 optionValues) \<and>
     in_range r \<and> in_range t \<and>
     in_range (- r * t) \<and>
     in_range (exp (- r * t)) \<and>
     in_range (py_sum optionValues / real (length optionValues) * exp (- r * t))"


subsection \<open>The specification's words\<close>

text \<open>
  The specification's arithmetic mean of a payoff sequence, written from its words
  (\<open>mean\<close> is the arithmetic average) to compare the code's \<^verbatim>\<open>sum(...)/n\<close> with.
\<close>

definition spec_mean :: "real list \<Rightarrow> real" where
  "spec_mean payoffs = sum_list payoffs / real (length payoffs)"

section \<open>Properties\<close>

subsection \<open>The range of a float\<close>

lemma float_max_lower: "2 ^ 1023 \<le> float_max"
proof -
  have "(1::real) \<le> 2 - 1 / 2 ^ 52" by simp
  then have "1 * (2::real) ^ 1023 \<le> (2 - 1 / 2 ^ 52) * 2 ^ 1023"
    by (rule mult_right_mono) simp
  then show ?thesis unfolding float_max_def by (simp only: mult_1)
qed

lemma float_max_upper: "float_max < 2 ^ 1024"
proof -
  have "(2 - 1 / 2 ^ 52 :: real) < 2" by simp
  then have "(2 - 1 / 2 ^ 52) * (2::real) ^ 1023 < 2 * 2 ^ 1023"
    by (rule mult_strict_right_mono) simp
  also have "2 * (2::real) ^ 1023 = 2 ^ Suc 1023" by (simp only: power_Suc)
  also have "Suc 1023 = 1024" by simp
  finally show ?thesis unfolding float_max_def .
qed

lemma in_range_small: "\<bar>x\<bar> \<le> 1000000 \<Longrightarrow> in_range x"
proof -
  assume a: "\<bar>x\<bar> \<le> 1000000"
  have "(1000000::real) \<le> 2 ^ 20" by simp
  also have "(2::real) ^ 20 \<le> 2 ^ 1023" by (rule power_increasing) simp_all
  also note float_max_lower
  finally have "(1000000::real) \<le> float_max" .
  with a show ?thesis unfolding in_range_def by (rule order_trans)
qed

text \<open>\<^verbatim>\<open>math.exp(1000.0)\<close> overflows: \<open>exp 6\<close> is at least \<open>2 ^ 7\<close>, hence \<open>exp 996\<close> at least \<open>2 ^ 1162\<close>.\<close>

lemma exp_overflow: "1000 \<le> x \<Longrightarrow> float_max < exp x"
proof -
  assume x: "1000 \<le> x"
  have "(3 / 2 :: real) \<le> exp (1 / 2)"
    using exp_ge_add_one_self [of "1 / 2"] by simp
  then have "(3 / 2 :: real) ^ 12 \<le> exp (1 / 2) ^ 12"
    by (intro power_mono) simp_all
  moreover have "exp (1 / 2 :: real) ^ 12 = exp 6"
    using exp_of_nat_mult [of 12 "1 / 2 :: real"] by simp
  moreover have "(2::real) ^ 7 \<le> (3 / 2) ^ 12" by (simp add: power_divide)
  ultimately have e6: "(2::real) ^ 7 \<le> exp 6" by linarith
  have p: "((2::real) ^ 7) ^ 166 \<le> exp 6 ^ 166"
    using e6 by (intro power_mono) simp_all
  have q: "exp (6::real) ^ 166 = exp 996"
    using exp_of_nat_mult [of 166 "6 :: real"] by simp
  have s: "((2::real) ^ 7) ^ 166 = 2 ^ 1162"
    by (simp only: power_mult [symmetric]) simp
  from p q s have "(2::real) ^ 1162 \<le> exp 996" by (simp only:)
  moreover have "(2::real) ^ 1024 \<le> 2 ^ 1162" by (rule power_increasing) simp_all
  ultimately have "(2::real) ^ 1024 \<le> exp 996" by (rule order_trans [rotated])
  with float_max_upper have "float_max < exp 996" by (rule less_le_trans)
  moreover have "exp (996::real) \<le> exp x" using x by simp
  ultimately show ?thesis by (rule less_le_trans)
qed

text \<open>\<^verbatim>\<open>1e200**2\<close> overflows: \<open>10 ^ 400\<close> is at least \<open>2 ^ 1200\<close>.\<close>

lemma pow_overflow: "\<not> in_range ((10 ^ 200) ^ 2)"
proof -
  have a: "((2::real) ^ 3) ^ 400 \<le> 10 ^ 400" by (rule power_mono) simp_all
  have b: "((2::real) ^ 3) ^ 400 = 2 ^ 1200" by (simp only: power_mult [symmetric]) simp
  have c: "(2::real) ^ 1024 \<le> 2 ^ 1200" by (rule power_increasing) simp_all
  have d: "((10::real) ^ 200) ^ 2 = 10 ^ 400" by (simp only: power_mult [symmetric]) simp
  from a b have "(2::real) ^ 1200 \<le> 10 ^ 400" by (simp only:)
  with c have "(2::real) ^ 1024 \<le> 10 ^ 400" by (rule order_trans)
  with float_max_upper have "float_max < 10 ^ 400" by (rule less_le_trans)
  with d have "float_max < (10 ^ 200) ^ 2" by (simp only:)
  moreover have "(0::real) \<le> (10 ^ 200) ^ 2" by (rule zero_le_power) simp
  ultimately show ?thesis unfolding in_range_def by (simp only: abs_of_nonneg not_le)
qed

lemma in_range_exp: "in_range (exp x) \<longleftrightarrow> exp x \<le> float_max"
  by (simp add: in_range_def)

text \<open>
  The notebook's own parameters (spot \<open>100\<close>, rate \<open>0.03\<close>, volatility \<open>0.4\<close>, three
  months) are within the range for every draw of absolute value at most \<open>10\<close>.
\<close>

lemma exp_three: "exp (3::real) \<le> 27"
proof -
  have "exp (3::real) = exp 1 ^ 3" using exp_of_nat_mult [of 3 "1::real"] by simp
  also have "\<dots> \<le> 3 ^ 3" by (intro power_mono exp_le) simp
  finally show ?thesis by simp
qed

lemma notebook_parameters_in_range:
  assumes "\<bar>z\<bar> \<le> 10"
  shows "bsm_in_range 100 (3 / 100) (4 / 10) (1 / 4) [z]"
proof -
  let ?e = "(3 / 100 - 0.5 * (4 / 10) ^ 2) * (1 / 4) + 4 / 10 * sqrt (1 / 4) * z"
  have sq: "sqrt (1 / 4 :: real) = 1 / 2" by (simp add: real_sqrt_divide)
  have e: "?e \<le> 3" "\<bar>?e\<bar> \<le> 1000000" "\<bar>4 / 10 * sqrt (1 / 4) * z\<bar> \<le> 1000000"
    using assms by (simp_all add: sq power2_eq_square abs_le_iff)
  then have "exp ?e \<le> exp 3" by simp
  then have x: "exp ?e \<le> 27" using exp_three by (rule order_trans)
  then have "\<bar>exp ?e\<bar> \<le> 1000000" "\<bar>100 * exp ?e\<bar> \<le> 1000000" by simp_all
  with e assms show ?thesis
    by (simp add: bsm_in_range_def in_range_small sq power2_eq_square)
qed

subsection \<open>Helper facts\<close>

lemma foldl_plus_sum_list: "foldl (+) a xs = a + sum_list xs" for a :: real
  by (induction xs arbitrary: a) (simp_all add: add.assoc)

lemma py_sum_eq_sum_list: "py_sum xs = sum_list xs"
  by (simp add: py_sum_def foldl_plus_sum_list)

text \<open>Where the power does not overflow, the vectorized function raises nothing.\<close>

lemma bsm_length:
  "in_range (sigma ^ 2) \<Longrightarrow> \<exists>S. bsm s_0 r sigma t z = Inr S \<and> length S = length z"
  by (simp add: bsm_def py_pow_def np_mul_def np_exp_def np_add_def)

lemma bsm_overflow:
  "\<not> in_range (sigma ^ 2) \<Longrightarrow> bsm s_0 r sigma t z = Inl OverflowError"
  by (simp add: bsm_def py_pow_def)

text \<open>With a time that is not negative it stays in the numbers.\<close>

lemma bsm_formula:
  "in_range (sigma ^ 2) \<Longrightarrow> 0 \<le> t \<Longrightarrow> bsm s_0 r sigma t z =
     Inr (map (\<lambda>zi. Some (s_0 * exp ((r - 0.5 * sigma ^ 2) * t + sigma * sqrt t * zi))) z)"
  by (simp add: bsm_def py_pow_def np_mul_def np_exp_def np_add_def np_sqrt_def mult.assoc)

text \<open>With a negative time \<^verbatim>\<open>np.sqrt\<close> gives \<^verbatim>\<open>nan\<close>, which reaches every element.\<close>

lemma bsm_nan:
  "in_range (sigma ^ 2) \<Longrightarrow> t < 0 \<Longrightarrow> bsm s_0 r sigma t z = Inr (map (\<lambda>zi. None) z)"
  by (simp add: bsm_def py_pow_def np_mul_def np_exp_def np_add_def np_sqrt_def)

lemma bsm_scalar_formula:
  "in_range (sigma ^ 2) \<Longrightarrow> 0 \<le> t \<Longrightarrow>
   in_range (exp ((r - 0.5 * sigma ^ 2) * t + sigma * sqrt t * z)) \<Longrightarrow>
   bsm_scalar s_0 r sigma t z =
     Inr (s_0 * exp ((r - 0.5 * sigma ^ 2) * t + sigma * sqrt t * z))"
  by (simp add: bsm_scalar_def py_pow_def math_sqrt_def math_exp_def)

lemma bsm_scalar_exp_overflow:
  "in_range (sigma ^ 2) \<Longrightarrow> 0 \<le> t \<Longrightarrow>
   \<not> in_range (exp ((r - 0.5 * sigma ^ 2) * t + sigma * sqrt t * z)) \<Longrightarrow>
   bsm_scalar s_0 r sigma t z = Inl OverflowError"
  by (simp add: bsm_scalar_def py_pow_def math_sqrt_def math_exp_def)

lemma bsm_scalar_negative_time:
  "in_range (sigma ^ 2) \<Longrightarrow> t < 0 \<Longrightarrow> bsm_scalar s_0 r sigma t z = Inl ValueError"
  by (simp add: bsm_scalar_def py_pow_def math_sqrt_def)

lemma optionValuesAtExpiry_map:
  "optionValuesAtExpiry S K = Inr (map (\<lambda>s. max (s - K) 0) S)"
  by (simp add: optionValuesAtExpiry_def np_maximum_def np_sub_def)

lemma presentOptionValue_nonempty:
  "payoffs \<noteq> [] \<Longrightarrow> in_range (exp (- r * t)) \<Longrightarrow>
   presentOptionValue payoffs r t = Inr (sum_list payoffs / real (length payoffs) * exp (- r * t))"
  by (simp add: presentOptionValue_def averageForwardOptionValue_def math_exp_def
      py_sum_eq_sum_list)

lemma presentOptionValue_empty:
  "presentOptionValue [] r t = Inl ZeroDivisionError"
  by (simp add: presentOptionValue_def averageForwardOptionValue_def)

lemma presentOptionValue_overflow:
  "payoffs \<noteq> [] \<Longrightarrow> \<not> in_range (exp (- r * t)) \<Longrightarrow>
   presentOptionValue payoffs r t = Inl OverflowError"
  by (simp add: presentOptionValue_def averageForwardOptionValue_def math_exp_def)

lemma presentOptionValue_at_strike_empty:
  "presentOptionValue_at_strike [] K r t = Inl ZeroDivisionError"
  by (simp add: presentOptionValue_at_strike_def optionValuesAtExpiry_map presentOptionValue_empty)

subsection \<open>The terminal price sampler\<close>

text \<open>
  Claim C1, as the code has it. For a spot \<open>S0 > 0\<close>, a time \<open>T > 0\<close>, a volatility
  \<open>sigma \<ge> 0\<close> and a sequence of draws \<open>Z\<close> of length \<open>n\<close> such that every input
  and every intermediate result of the formula is within the range of a float
  (\<open>bsm_in_range\<close>), the sampler (the vectorized \<open>bsm\<close>) returns a sequence of length
  \<open>n\<close> whose \<open>i\<close>-th element is the number
  \<open>S0 * exp ((r - 0.5 * sigma\<^sup>2) * T + sigma * sqrt T * Z\<^sub>i)\<close>.
\<close>

theorem bsm_terminal_prices:
  assumes "0 < s_0" and "0 < t" and "0 \<le> sigma" and "bsm_in_range s_0 r sigma t Z"
  shows "\<exists>S. bsm s_0 r sigma t Z = Inr S \<and> length S = length Z \<and>
           (\<forall>i<length Z.
              S ! i = Some (s_0 * exp ((r - 0.5 * sigma ^ 2) * t + sigma * sqrt t * Z ! i)))"
proof -
  from assms(2) have "0 \<le> t" by simp
  moreover from assms(4) have "in_range (sigma ^ 2)" by (simp add: bsm_in_range_def)
  ultimately show ?thesis by (simp add: bsm_formula)
qed

text \<open>
  At \<open>S0 = 100\<close>, \<open>r = 2\<close>, \<open>sigma = 2\<close>, \<open>T = 1\<close> the drift \<open>(r - 0.5 * sigma\<^sup>2) * T\<close> is
  zero, so two draws equal to \<open>0\<close> give the price \<open>100\<close> twice.
\<close>

theorem bsm_terminal_prices_witness:
  "(0::real) < 100 \<and> (0::real) < 1 \<and> (0::real) \<le> 2 \<and> bsm_in_range 100 2 2 1 [0, 0] \<and>
   (\<exists>S. bsm 100 2 2 1 [0, 0] = Inr S \<and> length S = 2 \<and> S ! 0 = Some 100 \<and> S ! 1 = Some 100)"
proof -
  have h: "bsm_in_range 100 2 2 1 [0, 0]"
    by (simp add: bsm_in_range_def in_range_small)
  show ?thesis
    using h bsm_terminal_prices [of 100 1 2 2 "[0, 0]"]
    by (simp add: All_less_Suc2 numeral_2_eq_2)
qed

text \<open>
  The claim as stated, for every \<open>sigma \<ge> 0\<close>, fails at \<^verbatim>\<open>bsm(100, 0, 1e200, 1, [0])\<close>:
  the call raises \<^verbatim>\<open>OverflowError\<close> and returns no sequence.
\<close>

theorem bsm_sigma_overflow:
  "(0::real) < 100 \<and> (0::real) < 1 \<and> (0::real) \<le> 10 ^ 200 \<and>
   bsm 100 0 (10 ^ 200) 1 [0] = Inl OverflowError"
proof -
  have "bsm 100 0 (10 ^ 200) 1 [0] = Inl OverflowError"
    by (rule bsm_overflow) (rule pow_overflow)
  moreover have "(0::real) \<le> 10 ^ 200" by (rule zero_le_power) simp
  ultimately show ?thesis by simp
qed

text \<open>
  Claim C4, as the code has it. The claim asks for an \<open>InvalidParameter\<close> failure when
  \<open>S0 \<le> 0\<close>, \<open>T \<le> 0\<close> or \<open>sigma < 0\<close>. The function checks none of its parameters:
  it never fails with \<open>InvalidParameter\<close>, and whatever the signs of \<open>S0\<close>, \<open>T\<close> and
  \<open>sigma\<close>, it returns a sequence of the length of the draws whenever the power
  \<^verbatim>\<open>sigma**2\<close> does not overflow.
\<close>

theorem bsm_never_rejects:
  "bsm s_0 r sigma t z \<noteq> Inl InvalidParameter \<and>
   (in_range (sigma ^ 2) \<longrightarrow> (\<exists>S. bsm s_0 r sigma t z = Inr S \<and> length S = length z))"
proof (cases "in_range (sigma ^ 2)")
  case True
  with bsm_length [of sigma s_0 r t z] show ?thesis by auto
next
  case False
  then show ?thesis by (simp add: bsm_overflow)
qed

theorem bsm_never_rejects_witness:
  "in_range ((- 1) ^ 2) \<and> (- 100 :: real) \<le> 0 \<and> (0 :: real) \<le> 0 \<and> (- 1 :: real) < 0 \<and>
   bsm (- 100) 0 (- 1) 0 [0] \<noteq> Inl InvalidParameter \<and>
   (\<exists>S. bsm (- 100) 0 (- 1) 0 [0] = Inr S \<and> length S = 1)"
proof -
  have h: "in_range ((- 1) ^ 2)" by (simp add: in_range_small)
  show ?thesis using h bsm_never_rejects [of "- 100" 0 "- 1" 0 "[0]"] by simp
qed

text \<open>
  The claim as stated fails at \<^verbatim>\<open>bsm(-100, 0, -1, 0, [0])\<close>, where the spot is negative,
  the volatility is negative and the time is zero: the call returns the price \<open>-100\<close>.
\<close>

theorem bsm_accepts_invalid_parameters:
  "bsm (- 100) 0 (- 1) 0 [0] = Inr [Some (- 100)] \<and>
   bsm (- 100) 0 (- 1) 0 [0] \<noteq> Inl InvalidParameter"
  by (simp add: bsm_def py_pow_def in_range_small np_mul_def np_exp_def np_add_def np_sqrt_def)

text \<open>
  Claim C7. With \<open>sigma = 0\<close>, \<open>S0 > 0\<close> and \<open>T > 0\<close> the sampler returns without a
  failure, every element is \<open>S0 * exp (r * T)\<close> whatever the draws are, and two
  sequences of draws of the same length give the same output.
\<close>

theorem bsm_zero_volatility:
  assumes "0 < s_0" and "0 < t" and "length Z' = length Z"
  shows "bsm s_0 r 0 t Z = Inr (map (\<lambda>zi. Some (s_0 * exp (r * t))) Z) \<and>
         bsm s_0 r 0 t Z' = bsm s_0 r 0 t Z"
proof -
  from assms(2) have t: "0 \<le> t" by simp
  have z: "in_range (0 ^ 2)" by (simp add: in_range_small)
  have "map (\<lambda>zi. Some (s_0 * exp (r * t))) Z' = map (\<lambda>zi. Some (s_0 * exp (r * t))) Z"
    using assms(3) by (simp add: map_replicate_const)
  with t z show ?thesis by (simp add: bsm_formula)
qed

theorem bsm_zero_volatility_witness:
  "(0::real) < 100 \<and> (0::real) < 1 \<and> length [3, 4 :: real] = length [1, 2 :: real] \<and>
   bsm 100 0 0 1 [1, 2] = Inr [Some 100, Some 100] \<and> bsm 100 0 0 1 [3, 4] = bsm 100 0 0 1 [1, 2]"
  using bsm_zero_volatility [of 100 1 "[3, 4]" "[1, 2]" 0] by simp

text \<open>
  Claim C10, as the code has it. On the empty sequence of draws the vectorized sampler
  returns the empty sequence and no error, for every \<open>S0\<close>, \<open>r\<close>, every \<open>T > 0\<close> and
  every \<open>sigma\<close> whose square is within the range of a float.
\<close>

theorem bsm_empty_draws:
  assumes "0 < t" and "in_range (sigma ^ 2)"
  shows "bsm s_0 r sigma t [] = Inr []"
  using assms(2) by (simp add: bsm_def py_pow_def np_mul_def np_exp_def np_add_def)

theorem bsm_empty_draws_witness:
  "(0::real) < 1 \<and> in_range (1 ^ 2) \<and> bsm 100 0 1 1 [] = Inr []"
proof -
  have h: "in_range (1 ^ 2)" by (simp add: in_range_small)
  show ?thesis using h bsm_empty_draws [of 1 1 100 0] by simp
qed

text \<open>
  The claim as stated, for every \<open>sigma\<close>, fails at \<^verbatim>\<open>bsm(100, 0, 1e200, 1, [])\<close>: the
  power \<^verbatim>\<open>sigma**2\<close> raises \<^verbatim>\<open>OverflowError\<close> before the draws are used.
\<close>

theorem bsm_empty_draws_sigma_overflow:
  "(0::real) < 1 \<and> bsm 100 0 (10 ^ 200) 1 [] = Inl OverflowError"
proof -
  have "bsm 100 0 (10 ^ 200) 1 [] = Inl OverflowError"
    by (rule bsm_overflow) (rule pow_overflow)
  then show ?thesis by simp
qed

subsection \<open>Scalar and vectorized formula\<close>

text \<open>
  Claim C8, as the code has it. For \<open>S0 > 0\<close>, \<open>sigma \<ge> 0\<close>, \<open>T > 0\<close> and draws for
  which every input and intermediate result of the formula is within the range of a
  float: on a single draw \<open>z\<close> (the batch of length one) the vectorized \<open>bsm\<close> gives
  the value the scalar \<open>bsm\<close> gives, and on a batch of \<open>n\<close> draws it gives, element
  by element, the \<open>n\<close> values of the scalar function on each draw.
\<close>

theorem bsm_scalar_vectorized_agree:
  assumes "0 < s_0" and "0 \<le> sigma" and "0 < t"
    and "bsm_in_range s_0 r sigma t [z]" and "bsm_in_range s_0 r sigma t zs"
  shows "(\<exists>v. bsm_scalar s_0 r sigma t z = Inr v \<and> bsm s_0 r sigma t [z] = Inr [Some v]) \<and>
         (\<exists>S. bsm s_0 r sigma t zs = Inr S \<and> length S = length zs \<and>
              (\<forall>i<length zs. \<exists>v. bsm_scalar s_0 r sigma t (zs ! i) = Inr v \<and> S ! i = Some v))"
proof -
  from assms(3) have t: "0 \<le> t" by simp
  from assms(4) have s: "in_range (sigma ^ 2)"
    and z: "in_range (exp ((r - 0.5 * sigma ^ 2) * t + sigma * sqrt t * z))"
    by (simp_all add: bsm_in_range_def)
  from assms(5) have zs: "\<forall>i<length zs.
      in_range (exp ((r - 0.5 * sigma ^ 2) * t + sigma * sqrt t * zs ! i))"
    by (simp add: bsm_in_range_def list_all_length)
  from t s z zs show ?thesis by (simp add: bsm_formula bsm_scalar_formula)
qed

theorem bsm_scalar_vectorized_agree_witness:
  "(0::real) < 100 \<and> (0::real) \<le> 2 \<and> (0::real) < 1 \<and>
   bsm_in_range 100 2 2 1 [0] \<and> bsm_in_range 100 2 2 1 [0, 0] \<and>
   bsm_scalar 100 2 2 1 0 = Inr 100 \<and> bsm 100 2 2 1 [0] = Inr [Some 100]"
proof -
  have h1: "bsm_in_range 100 2 2 1 [0]" by (simp add: bsm_in_range_def in_range_small)
  have h2: "bsm_in_range 100 2 2 1 [0, 0]" by (simp add: bsm_in_range_def in_range_small)
  show ?thesis
    using h1 h2 bsm_scalar_vectorized_agree [of 100 2 1 2 0 "[0, 0]"]
    by (auto simp add: bsm_scalar_def py_pow_def math_sqrt_def math_exp_def in_range_small)
qed

text \<open>
  The claim as stated, for every valid parameters, fails at \<open>S0 = 100\<close>, \<open>r = 1000\<close>,
  \<open>sigma = 0\<close>, \<open>T = 1\<close>, \<open>z = 0\<close>: the scalar call raises \<^verbatim>\<open>OverflowError\<close> from
  \<^verbatim>\<open>math.exp(1000.0)\<close>, the vectorized call raises nothing (\<^verbatim>\<open>np.exp\<close> does not raise).
\<close>

theorem bsm_scalar_raises_vectorized_returns:
  "(0::real) < 100 \<and> (0::real) \<le> 0 \<and> (0::real) < 1 \<and>
   bsm_scalar 100 1000 0 1 0 = Inl OverflowError \<and> \<not> isl (bsm 100 1000 0 1 [0])"
proof -
  have z: "in_range ((0::real) ^ 2)" by (simp add: in_range_small)
  have "\<not> in_range (exp ((1000 - 0.5 * 0 ^ 2) * 1 + 0 * sqrt 1 * (0::real)))"
    using exp_overflow [of 1000] by (simp add: in_range_exp)
  with z have "bsm_scalar 100 1000 0 1 0 = Inl OverflowError"
    by (intro bsm_scalar_exp_overflow) simp_all
  moreover have "\<not> isl (bsm 100 1000 0 1 [0])"
    using bsm_length [OF z, of 100 1000 1 "[0]"] by auto
  ultimately show ?thesis by simp
qed

subsection \<open>The payoff evaluator\<close>

text \<open>
  Claim C3. For every sequence of terminal prices and every strike \<open>K > 0\<close> the payoff
  evaluator returns a sequence of the same length whose \<open>i\<close>-th element is
  \<open>max (S\<^sub>i - K) 0\<close>: it is never negative, it is \<open>S\<^sub>i - K\<close> where \<open>S\<^sub>i > K\<close> and \<open>0\<close>
  elsewhere.
\<close>

theorem optionValuesAtExpiry_call_payoff:
  assumes "0 < K"
  shows "\<exists>P. optionValuesAtExpiry S K = Inr P \<and> length P = length S \<and>
           (\<forall>i<length S. P ! i = max (S ! i - K) 0 \<and> 0 \<le> P ! i \<and>
                (K < S ! i \<longrightarrow> P ! i = S ! i - K) \<and> (\<not> K < S ! i \<longrightarrow> P ! i = 0))"
  by (auto simp add: optionValuesAtExpiry_map)

text \<open>Strike \<open>105\<close>: the price \<open>100\<close> pays \<open>0\<close> and the price \<open>110\<close> pays \<open>5\<close>.\<close>

theorem optionValuesAtExpiry_call_payoff_witness:
  "(0::real) < 105 \<and> optionValuesAtExpiry [100, 110] 105 = Inr [0, 5]"
  using optionValuesAtExpiry_call_payoff [of 105 "[100, 110]"]
  by (auto simp add: All_less_Suc2 numeral_2_eq_2 list_eq_iff_nth_eq)

text \<open>
  Claim C6, as the code has it. The claim asks for an \<open>InvalidParameter\<close> failure on a
  strike \<open>K \<le> 0\<close>. The payoff evaluator has no error condition at all: for every
  strike, positive or not, and every sequence of terminal prices it returns the
  sequence of the \<open>max (S\<^sub>i - K) 0\<close>.
\<close>

theorem optionValuesAtExpiry_total:
  "optionValuesAtExpiry S K = Inr (map (\<lambda>s. max (s - K) 0) S) \<and>
   optionValuesAtExpiry S K \<noteq> Inl e"
  by (simp add: optionValuesAtExpiry_map)

text \<open>
  The claim as stated fails at the strikes \<open>0\<close> and \<open>-5\<close> on the single price \<open>100\<close>:
  the evaluator returns the payoffs \<open>100\<close> and \<open>105\<close>.
\<close>

theorem optionValuesAtExpiry_accepts_nonpositive_strike:
  "optionValuesAtExpiry [100] 0 = Inr [100] \<and>
   optionValuesAtExpiry [100] 0 \<noteq> Inl InvalidParameter \<and>
   optionValuesAtExpiry [100] (- 5) = Inr [105] \<and>
   optionValuesAtExpiry [100] (- 5) \<noteq> Inl InvalidParameter"
  by (simp add: optionValuesAtExpiry_map)

subsection \<open>The present value estimator\<close>

text \<open>
  Claim C2, as the code has it. For every non-empty sequence of payoffs and every \<open>r\<close>
  and \<open>T\<close> such that every input and intermediate result of the computation is
  within the range of a float (\<open>presentOptionValue_in_range\<close>), the estimator returns
  \<open>exp (- r * T)\<close> times the arithmetic mean of the payoffs.
\<close>

theorem presentOptionValue_discounted_mean:
  assumes "payoffs \<noteq> []" and "presentOptionValue_in_range payoffs r t"
  shows "presentOptionValue payoffs r t = Inr (exp (- r * t) * spec_mean payoffs)"
proof -
  from assms(2) have "in_range (exp (- r * t))"
    by (simp add: presentOptionValue_in_range_def)
  with assms(1) show ?thesis by (simp add: presentOptionValue_nonempty spec_mean_def)
qed

theorem presentOptionValue_discounted_mean_witness:
  "[2, 4] \<noteq> ([] :: real list) \<and> presentOptionValue_in_range [2, 4] 0 1 \<and>
   presentOptionValue [2, 4] 0 1 = Inr 3"
proof -
  have h: "presentOptionValue_in_range [2, 4] 0 1"
    by (simp add: presentOptionValue_in_range_def py_sum_def in_range_small)
  show ?thesis
    using h presentOptionValue_discounted_mean [of "[2, 4]" 0 1] by (simp add: spec_mean_def)
qed

text \<open>
  The claim as stated, for every \<open>r\<close> and \<open>T\<close>, fails on the single payoff \<open>5\<close> at
  \<open>r = -1000\<close>, \<open>T = 1\<close>: \<^verbatim>\<open>math.exp(1000.0)\<close> raises \<^verbatim>\<open>OverflowError\<close>.
\<close>

theorem presentOptionValue_discount_overflow:
  "[5] \<noteq> ([] :: real list) \<and> presentOptionValue [5] (- 1000) 1 = Inl OverflowError"
proof -
  have "\<not> in_range (exp (- (- 1000) * (1::real)))"
    using exp_overflow [of 1000] by (simp add: in_range_exp)
  then have "presentOptionValue [5] (- 1000) 1 = Inl OverflowError"
    by (intro presentOptionValue_overflow) simp_all
  then show ?thesis by simp
qed

text \<open>
  Claim C5, as the code has it. The estimator fails with \<open>ZeroDivisionError\<close> when and
  only when the sequence of payoffs is empty: that is the division \<^verbatim>\<open>sum(...)/n\<close>
  which computes the mean, not a check ahead of it, and the estimator never fails with
  \<open>EmptyInput\<close>. On a non-empty sequence, a single payoff included, it succeeds
  whenever the discount factor \<open>exp (- r * T)\<close> is within the range of a float.
\<close>

theorem presentOptionValue_fails_iff_empty:
  "(presentOptionValue payoffs r t = Inl ZeroDivisionError \<longleftrightarrow> payoffs = []) \<and>
   presentOptionValue payoffs r t \<noteq> Inl EmptyInput \<and>
   (payoffs \<noteq> [] \<and> in_range (exp (- r * t)) \<longrightarrow>
      (\<exists>v. presentOptionValue payoffs r t = Inr v)) \<and>
   (in_range (exp (- r * t)) \<longrightarrow> (\<exists>v. presentOptionValue [p] r t = Inr v))"
proof (cases "payoffs = []")
  case True
  then show ?thesis
    by (cases "in_range (exp (- r * t))")
      (simp_all add: presentOptionValue_empty presentOptionValue_nonempty)
next
  case False
  then show ?thesis
    by (cases "in_range (exp (- r * t))")
      (simp_all add: presentOptionValue_nonempty presentOptionValue_overflow)
qed

theorem presentOptionValue_fails_iff_empty_witness:
  "presentOptionValue [] 0 1 = Inl ZeroDivisionError \<and> [5] \<noteq> ([] :: real list) \<and>
   in_range (exp (- 0 * 1)) \<and> presentOptionValue [5] 0 1 \<noteq> Inl ZeroDivisionError \<and>
   (\<exists>v. presentOptionValue [5] 0 1 = Inr v)"
proof -
  have h: "in_range (exp (- 0 * 1))" by (simp add: in_range_small)
  show ?thesis
    using h presentOptionValue_fails_iff_empty [of "[]" 0 1 5]
      presentOptionValue_fails_iff_empty [of "[5]" 0 1 5]
    by auto
qed

text \<open>
  The claim as stated fails on the empty sequence, where the error is
  \<open>ZeroDivisionError\<close> and not \<open>EmptyInput\<close>, and on the single payoff \<open>5\<close> at
  \<open>r = -1000\<close>, \<open>T = 1\<close>, a non-empty sequence on which the estimator does not succeed.
\<close>

theorem presentOptionValue_empty_not_EmptyInput:
  "presentOptionValue [] 0 1 = Inl ZeroDivisionError \<and>
   presentOptionValue [] 0 1 \<noteq> Inl EmptyInput \<and>
   presentOptionValue [5] (- 1000) 1 = Inl OverflowError"
proof -
  have "\<not> in_range (exp (- (- 1000) * (1::real)))"
    using exp_overflow [of 1000] by (simp add: in_range_exp)
  then have "presentOptionValue [5] (- 1000) 1 = Inl OverflowError"
    by (intro presentOptionValue_overflow) simp_all
  then show ?thesis by (simp add: presentOptionValue_empty)
qed

subsection \<open>Payoffs and present value together\<close>



end
